theory Spec2Isabelle
  imports Complex_Main "HOL-Library.Word"
begin

section \<open>Values of the host language\<close>

text \<open>
  The two scripts \<^verbatim>\<open>ab_sim.py\<close> and \<^verbatim>\<open>bayesian.py\<close> are Python. Exceptions are
  values of the type \<open>exn\<close>; a computation that may raise returns \<open>exn + 'a\<close>.
  \<open>LibraryError\<close> stands for whatever a function of statsmodels raises.
\<close>

datatype exn = ValueError | OverflowError | ZeroDivisionError | KeyError | LibraryError

text \<open>
  A Python \<open>float\<close> is a finite number, an infinity or NaN; a finite value is the real
  number it stands for. The division of two integers and the doubling of a float are
  modelled with the rounding and the overflow of the doubles (below); the values that the
  libraries return are taken as they are.
\<close>

datatype pyfloat = Fl real | PInf | NInf | NaN

text \<open>
  \<^verbatim>\<open>x >= c\<close> and \<^verbatim>\<open>x < c\<close> for a float \<open>x\<close> and a finite literal \<open>c\<close>: every
  comparison with NaN is false. The literals of the audit, \<^verbatim>\<open>0.8\<close> and \<^verbatim>\<open>0.05\<close>, are
  read as the reals 8/10 and 5/100: the double of each literal is the least double above
  the real, so a double is below the one exactly when it is below the other.
\<close>

fun f_ge :: "pyfloat \<Rightarrow> real \<Rightarrow> bool" where
  "f_ge (Fl x) c = (c \<le> x)"
| "f_ge PInf c = True"
| "f_ge NInf c = False"
| "f_ge NaN c = False"

fun f_lt :: "pyfloat \<Rightarrow> real \<Rightarrow> bool" where
  "f_lt (Fl x) c = (x < c)"
| "f_lt PInf c = False"
| "f_lt NInf c = True"
| "f_lt NaN c = False"

text \<open>\<^verbatim>\<open>x > c\<close> for a float \<open>x\<close> and a finite literal \<open>c\<close>.\<close>

fun f_gt :: "pyfloat \<Rightarrow> real \<Rightarrow> bool" where
  "f_gt (Fl x) c = (c < x)"
| "f_gt PInf c = True"
| "f_gt NInf c = False"
| "f_gt NaN c = False"

text \<open>\<^verbatim>\<open>x - c\<close> for a float \<open>x\<close> and a finite literal \<open>c\<close>.\<close>

fun f_sub :: "pyfloat \<Rightarrow> real \<Rightarrow> pyfloat" where
  "f_sub (Fl x) c = Fl (x - c)"
| "f_sub PInf c = PInf"
| "f_sub NInf c = NInf"
| "f_sub NaN c = NaN"

text \<open>
  \<^verbatim>\<open>x / y\<close> on numpy scalars: no exception, a division by zero gives an infinity or NaN
  (with a warning). The sign of a zero is not modelled: a zero divisor counts as \<open>+0\<close>.
\<close>

fun np_div :: "pyfloat \<Rightarrow> pyfloat \<Rightarrow> pyfloat" where
  "np_div (Fl a) (Fl b) =
     (if b \<noteq> 0 then Fl (a / b) else if 0 < a then PInf else if a < 0 then NInf else NaN)"
| "np_div (Fl a) PInf = Fl 0"
| "np_div (Fl a) NInf = Fl 0"
| "np_div PInf (Fl b) = (if 0 \<le> b then PInf else NInf)"
| "np_div NInf (Fl b) = (if 0 \<le> b then NInf else PInf)"
| "np_div PInf PInf = NaN"
| "np_div PInf NInf = NaN"
| "np_div NInf PInf = NaN"
| "np_div NInf NInf = NaN"
| "np_div (Fl a) NaN = NaN"
| "np_div PInf NaN = NaN"
| "np_div NInf NaN = NaN"
| "np_div NaN y = NaN"

text \<open>
  \<^verbatim>\<open>x * 2\<close> on a float. Doubling a double is exact until it overflows: from \<open>2 ^ 1023\<close>
  on the product is an infinity (and no exception).
\<close>

fun f_double :: "pyfloat \<Rightarrow> pyfloat" where
  "f_double (Fl x) = (if \<bar>x\<bar> < 2 ^ 1023 then Fl (x * 2) else if 0 < x then PInf else NInf)"
| "f_double PInf = PInf"
| "f_double NInf = NInf"
| "f_double NaN = NaN"

text \<open>\<^verbatim>\<open>math.ceil\<close>: ValueError on NaN, OverflowError on an infinity.\<close>

fun math_ceil :: "pyfloat \<Rightarrow> exn + int" where
  "math_ceil (Fl x) = Inr \<lceil>x\<rceil>"
| "math_ceil PInf = Inl OverflowError"
| "math_ceil NInf = Inl OverflowError"
| "math_ceil NaN = Inl ValueError"

text \<open>
  The double nearest to a real number, ties to the even significand. A double is an
  integer multiple of its unit in the last place, \<open>2\<close> to the power \<open>ulp_exponent\<close>: 53
  bits of significand, and the exponent \<open>- 1074\<close> for the subnormal numbers. The exponent
  has no upper bound here; the caller checks the overflow.
\<close>

definition ulp_exponent :: "real \<Rightarrow> int" where
  "ulp_exponent x = max (\<lfloor>log 2 \<bar>x\<bar>\<rfloor> - 52) (- 1074)"

definition round_half_even :: "real \<Rightarrow> int" where
  "round_half_even y =
     (let f = \<lfloor>y\<rfloor>
      in if y - of_int f < 1 / 2 then f
         else if 1 / 2 < y - of_int f then f + 1
         else if even f then f else f + 1)"

definition to_double :: "real \<Rightarrow> real" where
  "to_double x =
     (if x = 0 then 0
      else of_int (round_half_even (x / 2 powr of_int (ulp_exponent x)))
             * 2 powr of_int (ulp_exponent x))"

text \<open>
  \<^verbatim>\<open>a / b\<close> on two Python integers: the double nearest to the quotient;
  ZeroDivisionError when \<open>b = 0\<close>, OverflowError when the rounded quotient is beyond the
  doubles.
\<close>

definition py_truediv :: "int \<Rightarrow> int \<Rightarrow> exn + pyfloat" where
  "py_truediv a b =
     (if b = 0 then Inl ZeroDivisionError
      else (let q = to_double (real_of_int a / real_of_int b)
            in if 2 ^ 1024 \<le> \<bar>q\<bar> then Inl OverflowError else Inr (Fl q)))"


section \<open>Bucketing: \<^verbatim>\<open>get_group\<close>\<close>

text \<open>
  A Python string is modelled as a \<open>string\<close>, its characters the code points below 256.
  \<^verbatim>\<open>str.encode()\<close> is UTF-8: one byte below 128, two bytes from 128 to 255.
\<close>

type_synonym byte = "8 word"

definition utf8_char :: "char \<Rightarrow> byte list" where
  "utf8_char c =
     (let n = (of_char c :: nat)
      in if n < 128 then [of_nat n] else [of_nat (192 + n div 64), of_nat (128 + n mod 64)])"

definition encode :: "string \<Rightarrow> byte list" where
  "encode s = concat (map utf8_char s)"

text \<open>
  \<^verbatim>\<open>hashlib.md5(data)\<close> is a library function, a parameter \<open>md5\<close> of the model: it maps
  the bytes to a digest of 16 bytes, here a \<open>128 word\<close>. \<^verbatim>\<open>hexdigest()\<close> writes the
  digest as 32 lower-case hexadecimal digits, the most significant first.
\<close>

type_synonym digest_fn = "byte list \<Rightarrow> 128 word"

definition hex_digit :: "nat \<Rightarrow> char" where
  "hex_digit d = char_of (if d < 10 then 48 + d else 87 + d)"

definition hexdigest :: "128 word \<Rightarrow> string" where
  "hexdigest w = map (\<lambda>i. hex_digit (nat ((uint w div 16 ^ i) mod 16))) (rev [0..<32])"

text \<open>
  \<^verbatim>\<open>int(s, 16)\<close> on a string of hexadecimal digits; \<open>None\<close> is the ValueError of a string
  that is empty or holds another character. (The signs, prefixes, underscores and blanks
  that \<^verbatim>\<open>int\<close> also reads do not occur in a hexdigest and are not modelled.)
\<close>

definition hex_value :: "char \<Rightarrow> nat option" where
  "hex_value c =
     (let n = (of_char c :: nat)
      in if 48 \<le> n \<and> n \<le> 57 then Some (n - 48)
         else if 97 \<le> n \<and> n \<le> 102 then Some (n - 87)
         else if 65 \<le> n \<and> n \<le> 70 then Some (n - 55)
         else None)"

fun int16_acc :: "int \<Rightarrow> string \<Rightarrow> int option" where
  "int16_acc acc [] = Some acc"
| "int16_acc acc (c # cs) =
     (case hex_value c of None \<Rightarrow> None | Some d \<Rightarrow> int16_acc (acc * 16 + int d) cs)"

definition py_int16 :: "string \<Rightarrow> int option" where
  "py_int16 s = (if s = [] then None else int16_acc 0 s)"

text \<open>
  \<^verbatim>\<open>
  def get_group(user_id, layer_name, salt):
      input_str = f"{user_id}_{layer_name}_{salt}"
      hash_val = int(hashlib.md5(input_str.encode()).hexdigest(), 16)
      return 'A' if (hash_val % 100) < 50 else 'B'
  \<close>
  The function is defined in both files; each definition is embedded on its own.
\<close>

definition get_group_ab_sim :: "digest_fn \<Rightarrow> string \<Rightarrow> string \<Rightarrow> string \<Rightarrow> exn + string" where
  "get_group_ab_sim md5 user_id layer_name salt =
     (let input_str = user_id @ ''_'' @ layer_name @ ''_'' @ salt
      in case py_int16 (hexdigest (md5 (encode input_str))) of
           None \<Rightarrow> Inl ValueError
         | Some hash_val \<Rightarrow> Inr (if hash_val mod 100 < 50 then ''A'' else ''B''))"

definition get_group_bayesian :: "digest_fn \<Rightarrow> string \<Rightarrow> string \<Rightarrow> string \<Rightarrow> exn + string" where
  "get_group_bayesian md5 user_id layer_name salt =
     (let input_str = user_id @ ''_'' @ layer_name @ ''_'' @ salt
      in case py_int16 (hexdigest (md5 (encode input_str))) of
           None \<Rightarrow> Inl ValueError
         | Some hash_val \<Rightarrow> Inr (if hash_val mod 100 < 50 then ''A'' else ''B''))"


text \<open>
  A call of \<^verbatim>\<open>get_group\<close> happens in some state of some process: the globals of the
  script, the generator of numpy, the clock, the state of the interpreter. In the second
  embedding this state is a value \<open>w\<close> of any type, and the call of \<^verbatim>\<open>hashlib.md5\<close> is a
  function that may read and change it. The body of \<^verbatim>\<open>get_group\<close> is the same: it names
  its three arguments and nothing else.
\<close>

type_synonym 'w digest_call = "'w \<Rightarrow> byte list \<Rightarrow> 128 word \<times> 'w"

definition get_group_call_ab_sim ::
  "'w digest_call \<Rightarrow> string \<Rightarrow> string \<Rightarrow> string \<Rightarrow> 'w \<Rightarrow> (exn + string) \<times> 'w" where
  "get_group_call_ab_sim md5 user_id layer_name salt w =
     (let input_str = user_id @ ''_'' @ layer_name @ ''_'' @ salt
      in case md5 w (encode input_str) of
           (d, w') \<Rightarrow>
             (case py_int16 (hexdigest d) of
                None \<Rightarrow> (Inl ValueError, w')
              | Some hash_val \<Rightarrow> (Inr (if hash_val mod 100 < 50 then ''A'' else ''B''), w')))"

definition get_group_call_bayesian ::
  "'w digest_call \<Rightarrow> string \<Rightarrow> string \<Rightarrow> string \<Rightarrow> 'w \<Rightarrow> (exn + string) \<times> 'w" where
  "get_group_call_bayesian md5 user_id layer_name salt w =
     (let input_str = user_id @ ''_'' @ layer_name @ ''_'' @ salt
      in case md5 w (encode input_str) of
           (d, w') \<Rightarrow>
             (case py_int16 (hexdigest d) of
                None \<Rightarrow> (Inl ValueError, w')
              | Some hash_val \<Rightarrow> (Inr (if hash_val mod 100 < 50 then ''A'' else ''B''), w')))"


section \<open>Planning: required sample size and duration\<close>

text \<open>
  The functions of statsmodels that the scripts call are parameters of the model, each
  returning a value or raising:
  \<^item> \<open>lib_effectsize p2 p\<close> is \<^verbatim>\<open>proportion_effectsize(p2, p)\<close>;
  \<^item> \<open>lib_solve_power es\<close> is \<^verbatim>\<open>obj.solve_power(effect_size=es, alpha=0.05, power=0.8, ratio=1.0)\<close>;
  \<^item> \<open>lib_power es nobs1\<close> is \<^verbatim>\<open>obj.power(effect_size=es, nobs1=nobs1, alpha=0.05, ratio=1.0)\<close>,
    converted to a float;
  \<^item> \<open>lib_ztest counts nobs\<close> is \<^verbatim>\<open>proportions_ztest(counts, nobs)\<close>, the pair \<open>(z, p)\<close>.
\<close>

record statsmodels =
  lib_effectsize :: "real \<Rightarrow> real \<Rightarrow> exn + pyfloat"
  lib_solve_power :: "pyfloat \<Rightarrow> exn + pyfloat"
  lib_power :: "pyfloat \<Rightarrow> real \<Rightarrow> exn + pyfloat"
  lib_ztest :: "int list \<Rightarrow> int list \<Rightarrow> exn + (pyfloat \<times> pyfloat)"



record plan =
  es :: pyfloat
  req_n :: int
  est_days :: int

datatype plan_outcome = Planned plan | CalcFailed

definition plan_sizes :: "pyfloat \<Rightarrow> pyfloat \<Rightarrow> int \<Rightarrow> exn + plan" where
  "plan_sizes e req_n_per_group dau =
     (case math_ceil (f_double req_n_per_group) of
        Inl x \<Rightarrow> Inl x
      | Inr n \<Rightarrow>
         (case py_truediv n dau of
            Inl x \<Rightarrow> Inl x
          | Inr q \<Rightarrow>
             (case math_ceil q of
                Inl x \<Rightarrow> Inl x
              | Inr d \<Rightarrow> Inr \<lparr>es = e, req_n = n, est_days = d\<rparr>)))"

definition planning_try :: "statsmodels \<Rightarrow> real \<Rightarrow> real \<Rightarrow> int \<Rightarrow> exn + plan" where
  "planning_try lib base_p mde_target dau =
     (let p2_mde = base_p * (1 + mde_target)
      in case lib_effectsize lib p2_mde base_p of
           Inl x \<Rightarrow> Inl x
         | Inr e \<Rightarrow>
            (case lib_solve_power lib e of
               Inl x \<Rightarrow> Inl x
             | Inr req_n_per_group \<Rightarrow> plan_sizes e req_n_per_group dau))"

definition planning :: "statsmodels \<Rightarrow> real \<Rightarrow> real \<Rightarrow> int \<Rightarrow> plan_outcome" where
  "planning lib base_p mde_target dau =
     (case planning_try lib base_p mde_target dau of
        Inl x \<Rightarrow> CalcFailed
      | Inr p \<Rightarrow> Planned p)"


section \<open>Frequentist statistics of the aggregated counts\<close>

text \<open>
  The observations are the rows of \<^verbatim>\<open>df_ab\<close>: a group label and a click (0 or 1).
  \<^verbatim>\<open>groupby(...)['Click'].agg(['count', 'sum'])\<close> has one row for each label that occurs;
  \<^verbatim>\<open>res.loc[g, ...]\<close> raises KeyError for a label that does not.
\<close>

type_synonym observations = "(string \<times> int) list"

definition agg :: "observations \<Rightarrow> string \<Rightarrow> (int \<times> int) option" where
  "agg rows g =
     (let clicks = map snd (filter (\<lambda>r. fst r = g) rows)
      in if clicks = [] then None else Some (int (length clicks), sum_list clicks))"

definition loc :: "observations \<Rightarrow> string \<Rightarrow> exn + (int \<times> int)" where
  "loc rows g = (case agg rows g of None \<Rightarrow> Inl KeyError | Some cs \<Rightarrow> Inr cs)"

record test_result =
  z_statistic :: pyfloat
  p_value :: pyfloat
  observed_lift :: pyfloat

text \<open>
  \<^verbatim>\<open>ab_sim.py\<close>:
  \<^verbatim>\<open>
  ca, cb = res.loc['A', 'sum'] / res.loc['A', 'count'], res.loc['B', 'sum'] / res.loc['B', 'count']
  obs_lift = (cb / ca - 1) if ca > 0 else 0
  z, p_val = proportions_ztest([res.loc['B', 'sum'], res.loc['A', 'sum']],
                               [res.loc['B', 'count'], res.loc['A', 'count']])
  \<close>
\<close>

definition obs_lift_ab_sim :: "observations \<Rightarrow> exn + pyfloat" where
  "obs_lift_ab_sim rows =
     (case loc rows ''A'' of
        Inl x \<Rightarrow> Inl x
      | Inr (a_count, a_sum) \<Rightarrow>
         (case loc rows ''B'' of
            Inl x \<Rightarrow> Inl x
          | Inr (b_count, b_sum) \<Rightarrow>
             (let ca = np_div (Fl (real_of_int a_sum)) (Fl (real_of_int a_count));
                  cb = np_div (Fl (real_of_int b_sum)) (Fl (real_of_int b_count))
              in Inr (if f_gt ca 0 then f_sub (np_div cb ca) 1 else Fl 0))))"

definition test_ab_sim :: "statsmodels \<Rightarrow> observations \<Rightarrow> exn + test_result" where
  "test_ab_sim lib rows =
     (case obs_lift_ab_sim rows of
        Inl x \<Rightarrow> Inl x
      | Inr obs_lift \<Rightarrow>
         (case loc rows ''B'' of
            Inl x \<Rightarrow> Inl x
          | Inr (b_count, b_sum) \<Rightarrow>
             (case loc rows ''A'' of
                Inl x \<Rightarrow> Inl x
              | Inr (a_count, a_sum) \<Rightarrow>
                 (case lib_ztest lib [b_sum, a_sum] [b_count, a_count] of
                    Inl x \<Rightarrow> Inl x
                  | Inr (z, p_val) \<Rightarrow>
                      Inr \<lparr>z_statistic = z, p_value = p_val, observed_lift = obs_lift\<rparr>))))"

text \<open>
  \<^verbatim>\<open>bayesian.py\<close>:
  \<^verbatim>\<open>
  ca_n, ca_s = res.loc['A', 'count'], res.loc['A', 'sum']
  cb_n, cb_s = res.loc['B', 'count'], res.loc['B', 'sum']
  z, p_val = proportions_ztest([cb_s, ca_s], [cb_n, ca_n])
  ...
  obs_lift = (cb_s / cb_n) / (ca_s / ca_n) - 1
  \<close>
\<close>

definition obs_lift_bayesian :: "int \<Rightarrow> int \<Rightarrow> int \<Rightarrow> int \<Rightarrow> pyfloat" where
  "obs_lift_bayesian ca_n ca_s cb_n cb_s =
     f_sub (np_div (np_div (Fl (real_of_int cb_s)) (Fl (real_of_int cb_n)))
                   (np_div (Fl (real_of_int ca_s)) (Fl (real_of_int ca_n)))) 1"

definition test_bayesian :: "statsmodels \<Rightarrow> observations \<Rightarrow> exn + test_result" where
  "test_bayesian lib rows =
     (case loc rows ''A'' of
        Inl x \<Rightarrow> Inl x
      | Inr (ca_n, ca_s) \<Rightarrow>
         (case loc rows ''B'' of
            Inl x \<Rightarrow> Inl x
          | Inr (cb_n, cb_s) \<Rightarrow>
             (case lib_ztest lib [cb_s, ca_s] [cb_n, ca_n] of
                Inl x \<Rightarrow> Inl x
              | Inr (z, p_val) \<Rightarrow>
                  Inr \<lparr>z_statistic = z, p_value = p_val,
                       observed_lift = obs_lift_bayesian ca_n ca_s cb_n cb_s\<rparr>)))"


section \<open>Bayesian comparison: \<^verbatim>\<open>run_bayesian_analysis\<close>\<close>

text \<open>
  \<^verbatim>\<open>np.random.beta(a, b, size)\<close> reads and advances numpy's global generator. The
  generator is a parameter: \<open>draw g a b\<close> is one draw from Beta(a, b) in the state \<open>g\<close>
  and the next state. \<open>np_random_beta\<close> draws \<open>sz\<close> values in turn and, as numpy
  does, raises ValueError for a parameter that is not positive.
\<close>

type_synonym 'g beta_draw = "'g \<Rightarrow> int \<Rightarrow> int \<Rightarrow> real \<times> 'g"

fun draws :: "'g beta_draw \<Rightarrow> int \<Rightarrow> int \<Rightarrow> nat \<Rightarrow> 'g \<Rightarrow> real list \<times> 'g" where
  "draws draw a b 0 g = ([], g)"
| "draws draw a b (Suc n) g =
     (case draw g a b of (x, g') \<Rightarrow>
        (case draws draw a b n g' of (xs, g'') \<Rightarrow> (x # xs, g'')))"

definition np_random_beta :: "'g beta_draw \<Rightarrow> int \<Rightarrow> int \<Rightarrow> nat \<Rightarrow> 'g \<Rightarrow> exn + (real list \<times> 'g)" where
  "np_random_beta draw a b sz g =
     (if a \<le> 0 \<or> b \<le> 0 then Inl ValueError else Inr (draws draw a b sz g))"

text \<open>\<^verbatim>\<open>.mean()\<close> of an array: NaN (with a warning) for an empty one.\<close>

definition np_mean :: "real list \<Rightarrow> pyfloat" where
  "np_mean xs = (if xs = [] then NaN else Fl (sum_list xs / real (length xs)))"

text \<open>
  \<^verbatim>\<open>
  def run_bayesian_analysis(c_clicks, c_n, t_clicks, t_n):
      alpha_a, beta_a = 1 + c_clicks, 1 + c_n - c_clicks
      alpha_b, beta_b = 1 + t_clicks, 1 + t_n - t_clicks
      samples = 20000
      a_samples = np.random.beta(alpha_a, beta_a, samples)
      b_samples = np.random.beta(alpha_b, beta_b, samples)
      prob_b_better = (b_samples > a_samples).mean()
      expected_loss = np.maximum(a_samples - b_samples, 0).mean()
      return prob_b_better, expected_loss
  \<close>
  The model also returns the state of the generator after the call.
\<close>

definition run_bayesian_analysis ::
  "'g beta_draw \<Rightarrow> int \<Rightarrow> int \<Rightarrow> int \<Rightarrow> int \<Rightarrow> 'g \<Rightarrow> exn + ((pyfloat \<times> pyfloat) \<times> 'g)" where
  "run_bayesian_analysis draw c_clicks c_n t_clicks t_n g =
     (let alpha_a = 1 + c_clicks; beta_a = 1 + c_n - c_clicks;
          alpha_b = 1 + t_clicks; beta_b = 1 + t_n - t_clicks;
          samples = 20000
      in case np_random_beta draw alpha_a beta_a samples g of
           Inl x \<Rightarrow> Inl x
         | Inr (a_samples, g1) \<Rightarrow>
            (case np_random_beta draw alpha_b beta_b samples g1 of
               Inl x \<Rightarrow> Inl x
             | Inr (b_samples, g2) \<Rightarrow>
                (let prob_b_better =
                       np_mean (map (\<lambda>(b, a). if a < b then 1 else 0) (zip b_samples a_samples));
                     expected_loss =
                       np_mean (map (\<lambda>(a, b). max (a - b) 0) (zip a_samples b_samples))
                 in Inr ((prob_b_better, expected_loss), g2))))"


section \<open>Power at the live sample size and the audit\<close>

text \<open>
  \<^verbatim>\<open>
  try:
      raw_p = obj.power(effect_size=es, nobs1=current_n / 2, alpha=0.05, ratio=1.0)
      curr_power = float(raw_p.power) if hasattr(raw_p, 'power') else float(raw_p)
  except:
      curr_power = 0.0
  \<close>
  The block is the same in both files. The rows of the sample are generated one by one
  before it, which keeps \<^verbatim>\<open>current_n\<close> far below \<open>2 ^ 53\<close>, where halving an integer is
  exact.
\<close>

definition curr_power :: "statsmodels \<Rightarrow> pyfloat \<Rightarrow> int \<Rightarrow> pyfloat" where
  "curr_power lib e current_n =
     (case lib_power lib e (real_of_int current_n / 2) of
        Inl x \<Rightarrow> Fl 0
      | Inr raw_p \<Rightarrow> raw_p)"

text \<open>
  The lines of \<^verbatim>\<open>audit_log\<close> are strings built from fixed texts; a line is modelled by
  its text's constructor and the value formatted into it. Every text starts with a mark
  for passed or failed and the name of its check.
\<close>

datatype audit_line =
    SampleEnough
  | SampleShort pyfloat
  | PowerEnough
  | PowerLow pyfloat
  | Significant
  | NotSignificant

datatype audit_check = SampleCheck | PowerCheck | SignificanceCheck

fun line_check :: "audit_line \<Rightarrow> audit_check" where
  "line_check SampleEnough = SampleCheck"
| "line_check (SampleShort r) = SampleCheck"
| "line_check PowerEnough = PowerCheck"
| "line_check (PowerLow p) = PowerCheck"
| "line_check Significant = SignificanceCheck"
| "line_check NotSignificant = SignificanceCheck"

fun line_passed :: "audit_line \<Rightarrow> bool" where
  "line_passed SampleEnough = True"
| "line_passed (SampleShort r) = False"
| "line_passed PowerEnough = True"
| "line_passed (PowerLow p) = False"
| "line_passed Significant = True"
| "line_passed NotSignificant = False"

record audit_state =
  score :: int
  audit_log :: "audit_line list"

text \<open>
  \<^verbatim>\<open>
  if current_n >= req_n:
      score += 40
      audit_log.append("... sample sufficient ...")
  else:
      audit_log.append(f"... only {current_n / req_n:.1%} ...")
  \<close>
  The division in the second branch raises ZeroDivisionError when \<open>req_n = 0\<close>. The
  text shows the share \<^verbatim>\<open>current_n / req_n\<close> to one decimal of a percent; the line of the
  model carries the quotient itself, before any rounding. (For a live count that is not
  negative the share lies between 0 and 1, where the division does not overflow; the
  overflow of a share of negative counts is not modelled.)
\<close>

definition check_sample :: "int \<Rightarrow> int \<Rightarrow> audit_state \<Rightarrow> exn + audit_state" where
  "check_sample current_n required_n st =
     (if required_n \<le> current_n
      then Inr (st\<lparr>score := score st + 40, audit_log := audit_log st @ [SampleEnough]\<rparr>)
      else if required_n = 0 then Inl ZeroDivisionError
      else Inr (st\<lparr>audit_log := audit_log st
                    @ [SampleShort (Fl (real_of_int current_n / real_of_int required_n))]\<rparr>))"

text \<open>
  \<^verbatim>\<open>
  if curr_power >= 0.8:
      score += 30
      audit_log.append("... power sufficient ...")
  else:
      audit_log.append(f"... Power only {curr_power:.1%} ...")
  \<close>
\<close>

definition check_power :: "pyfloat \<Rightarrow> audit_state \<Rightarrow> audit_state" where
  "check_power pw st =
     (if f_ge pw (8 / 10)
      then st\<lparr>score := score st + 30, audit_log := audit_log st @ [PowerEnough]\<rparr>
      else st\<lparr>audit_log := audit_log st @ [PowerLow pw]\<rparr>)"

text \<open>
  \<^verbatim>\<open>ab_sim.py\<close>:
  \<^verbatim>\<open>
  if p_val < 0.05:
      score += 30
      audit_log.append("... significant ...")
  else:
      audit_log.append("... not significant ...")
  \<close>
\<close>

definition check_significance_ab_sim :: "pyfloat \<Rightarrow> audit_state \<Rightarrow> audit_state" where
  "check_significance_ab_sim p_val st =
     (if f_lt p_val (5 / 100)
      then st\<lparr>score := score st + 30, audit_log := audit_log st @ [Significant]\<rparr>
      else st\<lparr>audit_log := audit_log st @ [NotSignificant]\<rparr>)"

text \<open>
  \<^verbatim>\<open>bayesian.py\<close>:
  \<^verbatim>\<open>
  if p_val < 0.05:
      score += 30
      audit_log.append("... significant ...")
  \<close>
\<close>

definition check_significance_bayesian :: "pyfloat \<Rightarrow> audit_state \<Rightarrow> audit_state" where
  "check_significance_bayesian p_val st =
     (if f_lt p_val (5 / 100)
      then st\<lparr>score := score st + 30, audit_log := audit_log st @ [Significant]\<rparr>
      else st)"

text \<open>The audit starts from \<^verbatim>\<open>score = 0\<close> and \<^verbatim>\<open>audit_log = []\<close> and runs the three checks.\<close>

definition audit_ab_sim :: "int \<Rightarrow> int \<Rightarrow> pyfloat \<Rightarrow> pyfloat \<Rightarrow> exn + audit_state" where
  "audit_ab_sim current_n required_n pw p_val =
     (case check_sample current_n required_n \<lparr>score = 0, audit_log = []\<rparr> of
        Inl x \<Rightarrow> Inl x
      | Inr st \<Rightarrow> Inr (check_significance_ab_sim p_val (check_power pw st)))"

definition audit_bayesian :: "int \<Rightarrow> int \<Rightarrow> pyfloat \<Rightarrow> pyfloat \<Rightarrow> exn + audit_state" where
  "audit_bayesian current_n required_n pw p_val =
     (case check_sample current_n required_n \<lparr>score = 0, audit_log = []\<rparr> of
        Inl x \<Rightarrow> Inl x
      | Inr st \<Rightarrow> Inr (check_significance_bayesian p_val (check_power pw st)))"

text \<open>
  \<^verbatim>\<open>
  if score == 100:
      st.success("high confidence ...")
  elif score >= 70:
      st.warning("medium confidence ...")
  else:
      st.error("low confidence ...")
  \<close>
  The same chain stands in both files.
\<close>

datatype verdict = HighConfidence | MediumConfidence | LowConfidence

definition verdict_of :: "int \<Rightarrow> verdict" where
  "verdict_of s =
     (if s = 100 then HighConfidence
      else if 70 \<le> s then MediumConfidence
      else LowConfidence)"


section \<open>Example inputs\<close>

text \<open>
  Stand-ins for the library, the digest and the generator, used where a statement is
  evaluated at a concrete input. \<open>lib_example\<close> returns the values of a planning run at
  baseline 0.10 and target 0.05 (effect size 0.016486, 57755.78 per group).
\<close>

definition lib_example :: statsmodels where
  "lib_example =
     \<lparr>lib_effectsize = (\<lambda>p2 p. Inr (Fl (16486 / 1000000))),
      lib_solve_power = (\<lambda>e. Inr (Fl (5775578 / 100))),
      lib_power = (\<lambda>e n. Inr (Fl (8 / 10))),
      lib_ztest = (\<lambda>c n. Inr (Fl 2, Fl (4 / 100)))\<rparr>"

text \<open>
  A digest call on a state that counts the calls: the digest is a function of the bytes,
  and every call changes the state.
\<close>

definition md5_counting :: "nat digest_call" where
  "md5_counting w bs = (of_nat (length bs), Suc w)"

text \<open>A library whose power computation raises, and one whose power computation returns 0.0.\<close>

definition lib_power_raises :: statsmodels where
  "lib_power_raises = lib_example\<lparr>lib_power := (\<lambda>e n. Inl LibraryError)\<rparr>"

definition lib_power_zero :: statsmodels where
  "lib_power_zero = lib_example\<lparr>lib_power := (\<lambda>e n. Inr (Fl 0))\<rparr>"

text \<open>A generator whose state is a counter and whose draws cycle through seven values.\<close>

definition draw_cycle :: "nat beta_draw" where
  "draw_cycle g a b = (real (g mod 7) / 7, Suc g)"


section \<open>Properties of the bucketing\<close>

lemma hex_value_hex_digit: "d < 16 \<Longrightarrow> hex_value (hex_digit d) = Some d"
  by (auto simp: hex_value_def hex_digit_def Let_def)

lemma int16_acc_digits:
  "int16_acc acc (map (\<lambda>i. hex_digit (nat ((x div 16 ^ i) mod 16))) (rev [0..<n]))
     = Some (acc * 16 ^ n + x mod 16 ^ n)"
proof (induction n arbitrary: acc)
  case 0
  then show ?case by simp
next
  case (Suc n)
  let ?d = "(x div 16 ^ n) mod 16"
  have d: "nat ?d < 16" "int (nat ?d) = ?d" by simp_all
  have split: "x mod 16 ^ Suc n = 16 ^ n * ?d + x mod 16 ^ n"
    using zmod_zmult2_eq [of 16 x "16 ^ n"] by (simp add: mult.commute)
  have "int16_acc acc (map (\<lambda>i. hex_digit (nat ((x div 16 ^ i) mod 16))) (rev [0..<Suc n]))
          = int16_acc (acc * 16 + ?d) (map (\<lambda>i. hex_digit (nat ((x div 16 ^ i) mod 16))) (rev [0..<n]))"
    using d by (simp add: hex_value_hex_digit)
  also have "\<dots> = Some ((acc * 16 + ?d) * 16 ^ n + x mod 16 ^ n)"
    by (rule Suc.IH)
  also have "(acc * 16 + ?d) * 16 ^ n + x mod 16 ^ n = acc * 16 ^ Suc n + x mod 16 ^ Suc n"
    unfolding split by (simp add: algebra_simps)
  finally show ?case .
qed

lemma uint_digest_bound: "uint (w :: 128 word) < 16 ^ 32"
proof -
  have "uint w < 2 ^ 128" using uint_bounded [of w] by simp
  then show ?thesis by simp
qed

lemma py_int16_hexdigest: "py_int16 (hexdigest w) = Some (uint w)"
proof -
  have "hexdigest w \<noteq> []" by (simp add: hexdigest_def)
  moreover have "int16_acc 0 (hexdigest w) = Some (uint w mod 16 ^ 32)"
    unfolding hexdigest_def by (simp add: int16_acc_digits)
  moreover have "uint w mod 16 ^ 32 = uint w"
    using uint_digest_bound [of w] by simp
  ultimately show ?thesis by (simp add: py_int16_def)
qed

lemma get_group_ab_sim_value:
  "get_group_ab_sim md5 u l s =
     Inr (if uint (md5 (encode (u @ ''_'' @ l @ ''_'' @ s))) mod 100 < 50 then ''A'' else ''B'')"
  by (simp add: get_group_ab_sim_def py_int16_hexdigest)

lemma get_group_bayesian_value:
  "get_group_bayesian md5 u l s =
     Inr (if uint (md5 (encode (u @ ''_'' @ l @ ''_'' @ s))) mod 100 < 50 then ''A'' else ''B'')"
  by (simp add: get_group_bayesian_def py_int16_hexdigest)

lemma get_group_call_pure:
  "get_group_call_ab_sim (\<lambda>w bs. (f bs, w)) u l s w = (get_group_ab_sim f u l s, w)"
  "get_group_call_bayesian (\<lambda>w bs. (f bs, w)) u l s w = (get_group_bayesian f u l s, w)"
  by (simp_all add: get_group_call_ab_sim_def get_group_ab_sim_def
      get_group_call_bayesian_def get_group_bayesian_def split: option.splits)

lemma get_group_call_ab_sim_result:
  "get_group_call_ab_sim md5 u l s w =
     (Inr (if uint (fst (md5 w (encode (u @ ''_'' @ l @ ''_'' @ s)))) mod 100 < 50 then ''A'' else ''B''),
      snd (md5 w (encode (u @ ''_'' @ l @ ''_'' @ s))))"
  by (simp add: get_group_call_ab_sim_def py_int16_hexdigest split: prod.splits)

lemma get_group_call_bayesian_result:
  "get_group_call_bayesian md5 u l s w =
     (Inr (if uint (fst (md5 w (encode (u @ ''_'' @ l @ ''_'' @ s)))) mod 100 < 50 then ''A'' else ''B''),
      snd (md5 w (encode (u @ ''_'' @ l @ ''_'' @ s))))"
  by (simp add: get_group_call_bayesian_def py_int16_hexdigest split: prod.splits)

text \<open>
  Claim C1. Two invocations of \<^verbatim>\<open>get_group\<close> with the same triple (subject id, layer
  name, salt) return the same variant: the result depends on the three inputs only, with
  no hidden state or time-dependence. The two invocations run in two states \<open>w\<close> and
  \<open>w'\<close> of the process, or of two processes, which the digest call may read and change.
  What is asked of the library is that the digest of \<^verbatim>\<open>hashlib.md5\<close> is a function of the
  bytes; then the outcome of \<^verbatim>\<open>get_group\<close> is the same in both states, in either file,
  and the call changes the state in no way of its own: the state after it is the one the
  digest call left.
\<close>

theorem get_group_state_independent:
  assumes "\<forall>w w' bs. fst (md5 w bs) = fst (md5 w' bs)"
  shows "fst (get_group_call_ab_sim md5 user_id layer_name salt w)
           = fst (get_group_call_ab_sim md5 user_id layer_name salt w')
       \<and> fst (get_group_call_bayesian md5 user_id layer_name salt w)
           = fst (get_group_call_bayesian md5 user_id layer_name salt w')
       \<and> snd (get_group_call_ab_sim md5 user_id layer_name salt w)
           = snd (md5 w (encode (user_id @ ''_'' @ layer_name @ ''_'' @ salt)))
       \<and> snd (get_group_call_bayesian md5 user_id layer_name salt w)
           = snd (md5 w (encode (user_id @ ''_'' @ layer_name @ ''_'' @ salt)))"
proof -
  have "fst (md5 w (encode (user_id @ ''_'' @ layer_name @ ''_'' @ salt)))
      = fst (md5 w' (encode (user_id @ ''_'' @ layer_name @ ''_'' @ salt)))"
    using assms by blast
  then show ?thesis
    by (simp add: get_group_call_ab_sim_result get_group_call_bayesian_result)
qed

theorem get_group_state_independent_witness:
  "fst (get_group_call_ab_sim md5_counting ''user_0'' ''L1'' ''UI_EXP'' 0)
     = fst (get_group_call_ab_sim md5_counting ''user_0'' ''L1'' ''UI_EXP'' 41)
   \<and> fst (get_group_call_bayesian md5_counting ''user_0'' ''L1'' ''UI_EXP'' 0)
     = fst (get_group_call_bayesian md5_counting ''user_0'' ''L1'' ''UI_EXP'' 41)
   \<and> snd (get_group_call_ab_sim md5_counting ''user_0'' ''L1'' ''UI_EXP'' 0) = 1
   \<and> snd (get_group_call_ab_sim md5_counting ''user_0'' ''L1'' ''UI_EXP'' 41) = 42"
proof -
  have "\<forall>w w' bs. fst (md5_counting w bs) = fst (md5_counting w' bs)"
    by (simp add: md5_counting_def)
  then show ?thesis
    using get_group_state_independent [of md5_counting "''user_0''" "''L1''" "''UI_EXP''" 0 41]
      get_group_state_independent [of md5_counting "''user_0''" "''L1''" "''UI_EXP''" 41 0]
    by (simp add: md5_counting_def)
qed

text \<open>
  Claim C2. \<^verbatim>\<open>get_group\<close> joins the three inputs into one string (with \<^verbatim>\<open>_\<close> between
  them), takes the digest of its bytes, reads the hexadecimal digest back as the unsigned
  integer of the 128-bit digest, reduces it modulo 100 and returns \<open>''A''\<close> exactly when
  the reduced value is below 50, and \<open>''B''\<close> otherwise.
\<close>

theorem get_group_threshold:
  "get_group_ab_sim md5 user_id layer_name salt =
     Inr (if uint (md5 (encode (user_id @ ''_'' @ layer_name @ ''_'' @ salt))) mod 100 < 50
          then ''A'' else ''B'')
   \<and> get_group_bayesian md5 user_id layer_name salt =
     Inr (if uint (md5 (encode (user_id @ ''_'' @ layer_name @ ''_'' @ salt))) mod 100 < 50
          then ''A'' else ''B'')
   \<and> py_int16 (hexdigest (md5 (encode (user_id @ ''_'' @ layer_name @ ''_'' @ salt))))
       = Some (uint (md5 (encode (user_id @ ''_'' @ layer_name @ ''_'' @ salt))))
   \<and> 0 \<le> uint (md5 (encode (user_id @ ''_'' @ layer_name @ ''_'' @ salt)))
   \<and> uint (md5 (encode (user_id @ ''_'' @ layer_name @ ''_'' @ salt))) < 2 ^ 128"
proof -
  have "uint (md5 (encode (user_id @ ''_'' @ layer_name @ ''_'' @ salt))) < 2 ^ 128"
    using uint_bounded [of "md5 (encode (user_id @ ''_'' @ layer_name @ ''_'' @ salt))"] by simp
  then show ?thesis
    by (simp add: get_group_ab_sim_value get_group_bayesian_value py_int16_hexdigest)
qed

text \<open>
  Claim C10. The two definitions of \<^verbatim>\<open>get_group\<close>, in \<^verbatim>\<open>ab_sim.py\<close> and in
  \<^verbatim>\<open>bayesian.py\<close>, return the same variant for every triple of strings.
\<close>

theorem get_group_files_agree:
  "get_group_ab_sim md5 user_id layer_name salt = get_group_bayesian md5 user_id layer_name salt"
  by (simp add: get_group_ab_sim_def get_group_bayesian_def)


section \<open>Properties of the audit\<close>

lemma check_sample_raises:
  "check_sample current_n required_n st = Inl x \<longleftrightarrow>
     (x = ZeroDivisionError \<and> required_n = 0 \<and> current_n < 0)"
  by (auto simp: check_sample_def)

lemma audit_ab_sim_returns:
  assumes "required_n \<noteq> 0 \<or> required_n \<le> current_n"
  shows "\<exists>st. audit_ab_sim current_n required_n pw p_val = Inr st"
  using assms by (auto simp: audit_ab_sim_def check_sample_def)

lemma audit_bayesian_returns:
  assumes "required_n \<noteq> 0 \<or> required_n \<le> current_n"
  shows "\<exists>st. audit_bayesian current_n required_n pw p_val = Inr st"
  using assms by (auto simp: audit_bayesian_def check_sample_def)

lemma audit_ab_sim_score:
  assumes "audit_ab_sim current_n required_n pw p_val = Inr st"
  shows "score st = (if required_n \<le> current_n then 40 else 0)
                  + (if f_ge pw (8 / 10) then 30 else 0)
                  + (if f_lt p_val (5 / 100) then 30 else 0)"
  using assms
  by (auto simp: audit_ab_sim_def check_sample_def check_power_def
      check_significance_ab_sim_def split: if_splits)

lemma audit_bayesian_score:
  assumes "audit_bayesian current_n required_n pw p_val = Inr st"
  shows "score st = (if required_n \<le> current_n then 40 else 0)
                  + (if f_ge pw (8 / 10) then 30 else 0)
                  + (if f_lt p_val (5 / 100) then 30 else 0)"
  using assms
  by (auto simp: audit_bayesian_def check_sample_def check_power_def
      check_significance_bayesian_def split: if_splits)

lemma verdict_of_cases:
  "(verdict_of s = HighConfidence \<longleftrightarrow> s = 100)
   \<and> (verdict_of s = MediumConfidence \<longleftrightarrow> 70 \<le> s \<and> s \<noteq> 100)
   \<and> (verdict_of s = LowConfidence \<longleftrightarrow> s < 70)"
  by (auto simp: verdict_of_def)

text \<open>
  Claim C3. The audit score is the sum of the weights of the passed checks: 40 if
  \<open>live_n \<ge> required_n\<close>, plus 30 if \<open>power_at_live_n \<ge> 0.8\<close>, plus 30 if
  \<open>p_value < 0.05\<close>; it lies between 0 and 100; the verdict is high confidence exactly
  when the score is 100, medium exactly when \<open>70 \<le> score < 100\<close> and low exactly when
  \<open>score < 70\<close>. Both files compute the same score. The inputs are those at which the
  audit returns: a required size of 0 with a negative live count makes the log line of
  the first check divide by zero.
\<close>

theorem audit_score_and_verdict:
  assumes "required_n \<noteq> 0 \<or> required_n \<le> current_n"
  shows "\<exists>st_a st_b.
           audit_ab_sim current_n required_n pw p_val = Inr st_a
         \<and> audit_bayesian current_n required_n pw p_val = Inr st_b
         \<and> score st_a = (if required_n \<le> current_n then 40 else 0)
                        + (if f_ge pw (8 / 10) then 30 else 0)
                        + (if f_lt p_val (5 / 100) then 30 else 0)
         \<and> score st_b = score st_a
         \<and> 0 \<le> score st_a \<and> score st_a \<le> 100
         \<and> (verdict_of (score st_a) = HighConfidence) = (score st_a = 100)
         \<and> (verdict_of (score st_a) = MediumConfidence) = (70 \<le> score st_a \<and> score st_a < 100)
         \<and> (verdict_of (score st_a) = LowConfidence) = (score st_a < 70)"
proof -
  obtain st_a where a: "audit_ab_sim current_n required_n pw p_val = Inr st_a"
    using audit_ab_sim_returns [OF assms] by blast
  obtain st_b where b: "audit_bayesian current_n required_n pw p_val = Inr st_b"
    using audit_bayesian_returns [OF assms] by blast
  have sa: "score st_a = (if required_n \<le> current_n then 40 else 0)
                        + (if f_ge pw (8 / 10) then 30 else 0)
                        + (if f_lt p_val (5 / 100) then 30 else 0)"
    by (rule audit_ab_sim_score [OF a])
  have sb: "score st_b = score st_a"
    unfolding sa by (rule audit_bayesian_score [OF b])
  have range: "0 \<le> score st_a" "score st_a \<le> 100"
    unfolding sa by simp_all
  have v: "(verdict_of (score st_a) = HighConfidence) = (score st_a = 100)"
      "(verdict_of (score st_a) = MediumConfidence) = (70 \<le> score st_a \<and> score st_a < 100)"
      "(verdict_of (score st_a) = LowConfidence) = (score st_a < 70)"
    using range verdict_of_cases [of "score st_a"] by auto
  show ?thesis using a b sa sb range v by blast
qed

theorem audit_score_and_verdict_witness:
  "audit_ab_sim 1000 1000 (Fl (8 / 10)) (Fl (4 / 100))
     = Inr \<lparr>score = 100, audit_log = [SampleEnough, PowerEnough, Significant]\<rparr>
   \<and> verdict_of 100 = HighConfidence
   \<and> audit_ab_sim 999 1000 (Fl (8 / 10)) (Fl (4 / 100))
     = Inr \<lparr>score = 60, audit_log = [SampleShort (Fl (999 / 1000)), PowerEnough, Significant]\<rparr>
   \<and> verdict_of 60 = LowConfidence"
  using audit_score_and_verdict [of 1000 1000 "Fl (8 / 10)" "Fl (4 / 100)"]
    audit_score_and_verdict [of 1000 999 "Fl (8 / 10)" "Fl (4 / 100)"]
  by (simp add: audit_ab_sim_def check_sample_def check_power_def
      check_significance_ab_sim_def verdict_of_def)

lemma audit_ab_sim_log:
  assumes "audit_ab_sim current_n required_n pw p_val = Inr st"
  shows "map line_check (audit_log st) = [SampleCheck, PowerCheck, SignificanceCheck]
       \<and> map line_passed (audit_log st)
           = [required_n \<le> current_n, f_ge pw (8 / 10), f_lt p_val (5 / 100)]"
  using assms
  by (auto simp: audit_ab_sim_def check_sample_def check_power_def
      check_significance_ab_sim_def split: if_splits)

lemma audit_bayesian_log:
  assumes "audit_bayesian current_n required_n pw p_val = Inr st"
  shows "map line_check (audit_log st) =
           (if f_lt p_val (5 / 100) then [SampleCheck, PowerCheck, SignificanceCheck]
            else [SampleCheck, PowerCheck])"
  using assms
  by (auto simp: audit_bayesian_def check_sample_def check_power_def
      check_significance_bayesian_def split: if_splits)

text \<open>
  Claim C9. The audit log holds one line for each of the three checks, whether the check
  passes or fails. \<^verbatim>\<open>ab_sim.py\<close> does so (\<open>audit_ab_sim_log\<close>). In \<^verbatim>\<open>bayesian.py\<close> the
  third check has no \<^verbatim>\<open>else\<close> branch: with a live count of 2000, a required size of
  1000, a power of 0.9 and a p-value of 0.5 its log holds two lines, and none for the
  significance check, where the log of \<^verbatim>\<open>ab_sim.py\<close> holds three.
\<close>

theorem audit_bayesian_two_lines:
  "audit_bayesian 2000 1000 (Fl (9 / 10)) (Fl (1 / 2))
     = Inr \<lparr>score = 70, audit_log = [SampleEnough, PowerEnough]\<rparr>
   \<and> audit_ab_sim 2000 1000 (Fl (9 / 10)) (Fl (1 / 2))
     = Inr \<lparr>score = 70, audit_log = [SampleEnough, PowerEnough, NotSignificant]\<rparr>"
  by (simp add: audit_bayesian_def audit_ab_sim_def check_sample_def check_power_def
      check_significance_bayesian_def check_significance_ab_sim_def)


section \<open>Properties of the power at the live sample size\<close>

text \<open>
  Claim C4 says that a power computation that fails is signalled apart from a computed
  power, and that 0.0 is never returned to mean that the power could not be computed.
  The handler of the block sets \<^verbatim>\<open>curr_power = 0.0\<close>: with a library whose power
  computation raises, the block leaves the same value as with a library that computes
  the power 0.0.
\<close>

theorem curr_power_failure_is_zero:
  "lib_power lib_power_raises (Fl (16486 / 1000000)) (real_of_int 7000 / 2) = Inl LibraryError
   \<and> lib_power lib_power_zero (Fl (16486 / 1000000)) (real_of_int 7000 / 2) = Inr (Fl 0)
   \<and> curr_power lib_power_raises (Fl (16486 / 1000000)) 7000 = Fl 0
   \<and> curr_power lib_power_zero (Fl (16486 / 1000000)) 7000 = Fl 0"
  by (simp add: curr_power_def lib_power_raises_def lib_power_zero_def lib_example_def)

text \<open>
  Claim C4, amended. When the power computation returns a value, \<^verbatim>\<open>curr_power\<close> is that
  value; when it raises, \<^verbatim>\<open>curr_power\<close> is 0.0, the value of a computed power of 0.0,
  and the power check of the audit fails on it with the low-power line.
\<close>

theorem curr_power_outcome:
  "curr_power lib e current_n =
     (case lib_power lib e (real_of_int current_n / 2) of Inl x \<Rightarrow> Fl 0 | Inr raw_p \<Rightarrow> raw_p)
   \<and> (\<forall>x. lib_power lib e (real_of_int current_n / 2) = Inl x \<longrightarrow>
          curr_power lib e current_n = Fl 0
        \<and> check_power (curr_power lib e current_n) st
            = st\<lparr>audit_log := audit_log st @ [PowerLow (Fl 0)]\<rparr>)"
  by (simp add: curr_power_def check_power_def)

theorem curr_power_outcome_witness:
  "curr_power lib_power_raises (Fl (16486 / 1000000)) 7000 = Fl 0
   \<and> check_power (curr_power lib_power_raises (Fl (16486 / 1000000)) 7000)
        \<lparr>score = 40, audit_log = [SampleEnough]\<rparr>
       = \<lparr>score = 40, audit_log = [SampleEnough, PowerLow (Fl 0)]\<rparr>"
proof -
  have "lib_power lib_power_raises (Fl (16486 / 1000000)) (real_of_int 7000 / 2) = Inl LibraryError"
    by (simp add: lib_power_raises_def)
  then show ?thesis
    using curr_power_outcome
      [of lib_power_raises "Fl (16486 / 1000000)" 7000 "\<lparr>score = 40, audit_log = [SampleEnough]\<rparr>"]
    by (simp add: check_power_def)
qed


section \<open>Properties of the division of integers\<close>

text \<open>
  The ceiling of the rounded quotient of two integers is the ceiling of the quotient, as
  long as the dividend has fewer than 54 bits: the quotient then lies further from the
  integer below it than half a unit in the last place.
\<close>

lemma round_half_even_le:
  assumes "y \<le> of_int m"
  shows "round_half_even y \<le> m"
proof -
  have f: "\<lfloor>y\<rfloor> \<le> m" using assms by (simp add: floor_le_iff)
  show ?thesis
  proof (cases "\<lfloor>y\<rfloor> = m")
    case True
    then have "y = of_int m" using assms by linarith
    then show ?thesis by (simp add: round_half_even_def)
  next
    case False
    with f have "\<lfloor>y\<rfloor> + 1 \<le> m" by simp
    then show ?thesis by (auto simp: round_half_even_def Let_def)
  qed
qed

lemma round_half_even_gt:
  assumes "of_int m + 1 / 2 < y"
  shows "m < round_half_even y"
proof -
  have f: "m \<le> \<lfloor>y\<rfloor>" using assms by (simp add: le_floor_iff)
  show ?thesis
  proof (cases "\<lfloor>y\<rfloor> = m")
    case True
    then have "1 / 2 < y - of_int \<lfloor>y\<rfloor>" using assms by simp
    then show ?thesis using True by (simp add: round_half_even_def Let_def)
  next
    case False
    with f have "m + 1 \<le> \<lfloor>y\<rfloor>" by simp
    then show ?thesis by (auto simp: round_half_even_def Let_def)
  qed
qed

lemma ulp_exponent_nonpos:
  assumes "0 < x" and "x < 2 ^ 53"
  shows "ulp_exponent x \<le> 0"
proof -
  have "x < 2 powr 53" using assms(2) by simp
  then have "log 2 x < 53" using assms(1) by (simp add: log_less_iff del: powr_numeral)
  then have "\<lfloor>log 2 x\<rfloor> \<le> 52" by (simp add: floor_le_iff)
  then show ?thesis using assms by (simp add: ulp_exponent_def)
qed

lemma ulp_powr_le:
  fixes x :: real
  assumes "0 < x"
  shows "2 powr of_int (\<lfloor>log 2 x\<rfloor> - 52) * 2 ^ 52 \<le> x"
proof -
  have "(2 :: real) powr of_int (\<lfloor>log 2 x\<rfloor> - 52) * 2 powr 52
          = 2 powr (of_int (\<lfloor>log 2 x\<rfloor> - 52) + 52)"
    by (rule powr_add [symmetric])
  also have "\<dots> = 2 powr of_int \<lfloor>log 2 x\<rfloor>" by simp
  also have "\<dots> \<le> 2 powr log 2 x"
    by (rule powr_mono) simp_all
  also have "\<dots> = x" using assms by simp
  finally have "(2 :: real) powr of_int (\<lfloor>log 2 x\<rfloor> - 52) * 2 powr 52 \<le> x" .
  moreover have "(2 :: real) powr 52 = 2 ^ 52" by simp
  ultimately show ?thesis by simp
qed

lemma ceiling_to_double_quotient:
  fixes a b :: int
  assumes a: "0 < a" "a < 2 ^ 53" and b: "0 < b" "b < 2 ^ 1075"
  shows "\<lceil>to_double (real_of_int a / real_of_int b)\<rceil> = \<lceil>real_of_int a / real_of_int b\<rceil>"
    and "\<bar>to_double (real_of_int a / real_of_int b)\<bar> < 2 ^ 1024"
proof -
  define x where "x = real_of_int a / real_of_int b"
  define E where "E = ulp_exponent x"
  define u where "u = 2 powr (of_int E :: real)"
  define k where "k = \<lceil>x\<rceil>"
  define N where "N = (2 :: int) ^ nat (- E)"
  have bpos: "0 < real_of_int b" and apos: "0 < real_of_int a" using a b by simp_all
  have xpos: "0 < x" using a b by (simp add: x_def)
  have b1: "1 \<le> real_of_int b" using b by simp
  have xa: "x \<le> real_of_int a"
    using b1 apos unfolding x_def by (simp add: divide_le_eq)
  have x53: "x < 2 ^ 53"
  proof -
    have "real_of_int a < 2 ^ 53" using a(2) by (metis of_int_less_numeral_power_cancel_iff)
    then show ?thesis using xa by linarith
  qed
  have Enonpos: "E \<le> 0" unfolding E_def using xpos x53 by (rule ulp_exponent_nonpos)
  have upos: "0 < u" by (simp add: u_def)
  have uN: "u * real_of_int N = 1"
  proof -
    have "real_of_int N = 2 powr of_int (- E)"
      using Enonpos by (simp add: N_def powr_realpow [symmetric])
    then show ?thesis by (simp add: u_def powr_add [symmetric])
  qed
  have Npos: "0 < real_of_int N" by (simp add: N_def)
  have xu: "x / u = x * real_of_int N"
    using uN upos by (simp add: field_simps)
  have bu: "real_of_int b * u < 2"
  proof -
    have "E = \<lfloor>log 2 x\<rfloor> - 52 \<or> E = - 1074"
      using xpos by (auto simp: E_def ulp_exponent_def max_def)
    then show ?thesis
    proof
      assume "E = \<lfloor>log 2 x\<rfloor> - 52"
      then have "u * 2 ^ 52 \<le> x" unfolding u_def using ulp_powr_le [OF xpos] by simp
      then have "real_of_int b * (u * 2 ^ 52) \<le> real_of_int a"
        using bpos unfolding x_def by (simp add: field_simps)
      then have w: "(real_of_int b * u) * 2 ^ 52 \<le> real_of_int a"
        by (simp only: mult.assoc)
      have "real_of_int a < 2 ^ 53" using a(2) by (metis of_int_less_numeral_power_cancel_iff)
      with w have "(real_of_int b * u) * 2 ^ 52 < 2 ^ 53" by (rule le_less_trans)
      then show ?thesis by (simp add: mult.commute)
    next
      assume E1074: "E = - 1074"
      define M :: real where "M = 2 ^ 1074"
      have "u = 2 powr (- 1074)" unfolding u_def E1074 by simp
      also have "\<dots> = 1 / 2 powr 1074" by (rule powr_minus_divide)
      also have "(2 :: real) powr 1074 = M" unfolding M_def by simp
      finally have uM: "u * M = 1" by (simp add: M_def)
      have "real_of_int b < 2 ^ 1075" using b(2) by (metis of_int_less_numeral_power_cancel_iff)
      also have "(2 :: real) ^ 1075 = 2 * M" unfolding M_def by simp
      finally have "real_of_int b * u < (2 * M) * u"
        using upos by (simp only: mult_less_cancel_right_pos)
      also have "\<dots> = 2 * (u * M)" by simp
      finally show ?thesis using uM by simp
    qed
  qed
  have kx: "x \<le> real_of_int k" "real_of_int k - 1 < x"
    unfolding k_def by linarith+
  have kpos: "1 \<le> k" unfolding k_def using xpos by simp
  have gap: "1 / real_of_int b \<le> x - real_of_int (k - 1)"
  proof -
    have "real_of_int ((k - 1) * b) < real_of_int a"
      using kx(2) bpos unfolding x_def by (simp add: field_simps)
    then have "(k - 1) * b < a" by (simp only: of_int_less_iff)
    then have "(k - 1) * b + 1 \<le> a" by simp
    then have "real_of_int ((k - 1) * b + 1) \<le> real_of_int a" by (simp only: of_int_le_iff)
    then show ?thesis using bpos unfolding x_def by (simp add: field_simps)
  qed
  define r where "r = round_half_even (x / u)"
  have r_le: "r \<le> k * N"
  proof -
    have "x / u \<le> real_of_int (k * N)"
      using kx(1) Npos unfolding xu by simp
    then show ?thesis unfolding r_def by (rule round_half_even_le)
  qed
  have r_gt: "(k - 1) * N < r"
  proof -
    have "1 / 2 < real_of_int N / real_of_int b"
    proof -
      have "real_of_int b * u * real_of_int N < 2 * real_of_int N"
        using bu Npos by simp
      then have "real_of_int b < 2 * real_of_int N" using uN by (simp add: mult.assoc)
      then show ?thesis using bpos by (simp add: field_simps)
    qed
    also have "\<dots> = (1 / real_of_int b) * real_of_int N" by simp
    also have "\<dots> \<le> (x - real_of_int (k - 1)) * real_of_int N"
      using gap Npos by (simp only: mult_le_cancel_right_pos)
    finally have "real_of_int ((k - 1) * N) + 1 / 2 < x / u"
      unfolding xu by (simp add: algebra_simps)
    then show ?thesis unfolding r_def by (rule round_half_even_gt)
  qed
  have td: "to_double x = real_of_int r * u"
    using xpos by (simp add: to_double_def r_def u_def E_def)
  have q_le: "to_double x \<le> real_of_int k"
  proof -
    have le: "real_of_int r \<le> real_of_int (k * N)" using r_le by (simp only: of_int_le_iff)
    have "real_of_int r * u \<le> real_of_int (k * N) * u"
      using le upos by (simp only: mult_le_cancel_right_pos)
    also have "\<dots> = real_of_int k * (u * real_of_int N)" by simp
    also have "\<dots> = real_of_int k" by (simp only: uN mult_1_right)
    finally show ?thesis by (simp add: td)
  qed
  have q_gt: "real_of_int k - 1 < to_double x"
  proof -
    have lt: "real_of_int ((k - 1) * N) < real_of_int r" using r_gt by (simp only: of_int_less_iff)
    have "real_of_int (k - 1) = real_of_int (k - 1) * (u * real_of_int N)"
      by (simp only: uN mult_1_right)
    also have "\<dots> = real_of_int ((k - 1) * N) * u" by simp
    also have "\<dots> < real_of_int r * u"
      using lt upos by (simp only: mult_less_cancel_right_pos)
    finally show ?thesis by (simp add: td)
  qed
  have "\<lceil>to_double x\<rceil> = k"
    using q_le q_gt by (simp add: ceiling_eq_iff)
  then show "\<lceil>to_double (real_of_int a / real_of_int b)\<rceil> = \<lceil>real_of_int a / real_of_int b\<rceil>"
    by (simp add: x_def k_def)
  have "real_of_int k \<le> real_of_int a"
  proof -
    have "k \<le> a" unfolding k_def using xa by (simp add: ceiling_le_iff)
    then show ?thesis by (simp only: of_int_le_iff)
  qed
  moreover have "real_of_int a < 2 ^ 53" using a(2) by (metis of_int_less_numeral_power_cancel_iff)
  moreover have "(2 :: real) ^ 53 < 2 ^ 1024" by simp
  moreover have "0 < to_double x" using q_gt kpos by simp
  ultimately show "\<bar>to_double (real_of_int a / real_of_int b)\<bar> < 2 ^ 1024"
    using q_le unfolding x_def by simp
qed

text \<open>
  Beyond 53 bits the rounding shows: the code returns 9007199254740994 days for a total of
  27021597764222984 at a daily volume of 3, where the exact ceiling is 9007199254740995.
\<close>

lemma ulp_exponent_eq:
  assumes "2 ^ k \<le> \<bar>x\<bar>" and "\<bar>x\<bar> < 2 ^ Suc k"
  shows "ulp_exponent x = max (int k - 52) (- 1074)"
proof -
  have pos: "0 < \<bar>x\<bar>" using assms(1) by (rule less_le_trans [rotated]) simp
  have "2 powr real_of_int (int k) \<le> \<bar>x\<bar>"
    using assms(1) by (simp add: powr_realpow)
  moreover have "\<bar>x\<bar> < 2 powr real_of_int (int k + 1)"
    using assms(2) by (simp add: powr_realpow [symmetric] powr_add)
  ultimately have "\<lfloor>log 2 \<bar>x\<bar>\<rfloor> = int k"
    using pos by (simp add: floor_log_eq_powr_iff)
  then show ?thesis by (simp add: ulp_exponent_def)
qed

lemma py_truediv_beyond_53_bits:
  "py_truediv 27021597764222984 3 = Inr (Fl 9007199254740994)"
proof -
  define x :: real where "x = 27021597764222984 / 3"
  have "ulp_exponent x = max (int 53 - 52) (- 1074)"
    by (rule ulp_exponent_eq) (simp_all add: x_def)
  then have e: "ulp_exponent x = 1" by simp
  have r: "round_half_even (x / 2) = 4503599627370497"
    by (simp add: round_half_even_def x_def Let_def)
  have "to_double x = 9007199254740994"
    by (simp add: to_double_def e r) (simp add: x_def)
  then show ?thesis by (simp add: py_truediv_def x_def Let_def)
qed


section \<open>Properties of the planning\<close>

lemma plan_sizes_in_range:
  assumes n: "0 < n" "\<lceil>2 * n\<rceil> < 2 ^ 53" and dau: "0 < dau" "dau < 2 ^ 1075"
  shows "plan_sizes e (Fl n) dau =
           Inr \<lparr>es = e, req_n = \<lceil>2 * n\<rceil>,
                est_days = \<lceil>real_of_int \<lceil>2 * n\<rceil> / real_of_int dau\<rceil>\<rparr>"
proof -
  have "2 * n \<le> real_of_int \<lceil>2 * n\<rceil>" by (rule le_of_int_ceiling)
  moreover have "real_of_int \<lceil>2 * n\<rceil> < 2 ^ 53"
    using n(2) by (metis of_int_less_numeral_power_cancel_iff)
  ultimately have "2 * n < 2 ^ 53" by (rule le_less_trans)
  moreover have "(2 :: real) ^ 53 < 2 * 2 ^ 1023" by simp
  ultimately have "2 * n < 2 * 2 ^ 1023" by (rule less_trans)
  then have "\<bar>n\<bar> < 2 ^ 1023" using n(1) by simp
  then have size: "math_ceil (f_double (Fl n)) = Inr \<lceil>2 * n\<rceil>"
    by (simp add: mult.commute)
  have apos: "0 < \<lceil>2 * n\<rceil>" using n(1) by simp
  have "dau \<noteq> 0" using dau(1) by simp
  moreover have "\<not> 2 ^ 1024 \<le> \<bar>to_double (real_of_int \<lceil>2 * n\<rceil> / real_of_int dau)\<bar>"
    using ceiling_to_double_quotient(2) [OF apos n(2) dau] by simp
  ultimately have div: "py_truediv \<lceil>2 * n\<rceil> dau =
      Inr (Fl (to_double (real_of_int \<lceil>2 * n\<rceil> / real_of_int dau)))"
    by (simp add: py_truediv_def Let_def)
  have days: "\<lceil>to_double (real_of_int \<lceil>2 * n\<rceil> / real_of_int dau)\<rceil>
      = \<lceil>real_of_int \<lceil>2 * n\<rceil> / real_of_int dau\<rceil>"
    by (rule ceiling_to_double_quotient(1) [OF apos n(2) dau])
  show ?thesis
    unfolding plan_sizes_def size by (simp add: div days)
qed

text \<open>
  From \<open>2 ^ 1023\<close> on the doubling of the solved size overflows to an infinity, whose
  ceiling raises: the planner fails.
\<close>

lemma plan_sizes_overflow:
  assumes "2 ^ 1023 \<le> n"
  shows "plan_sizes e (Fl n) dau = Inl OverflowError"
proof -
  have "0 < n" using assms by (rule less_le_trans [rotated]) simp
  then have "f_double (Fl n) = PInf" using assms by simp
  then show ?thesis by (simp add: plan_sizes_def)
qed




text \<open>
  Claim C8. For a per-group sample size \<open>n\<close> returned by the power solve and a positive
  daily volume, the planner returns the total \<open>2n\<close> rounded up to an integer, and the
  days as the ceiling of the total divided by the daily volume. The division of the total
  by the volume is the division of two integers to a double, and its ceiling is the
  ceiling of the exact quotient for every total below \<open>2 ^ 53\<close> and every volume below
  \<open>2 ^ 1075\<close> (from there on a quotient can round to zero).
\<close>

theorem planning_totals:
  assumes "lib_effectsize lib (base_p * (1 + mde_target)) base_p = Inr e"
    and "lib_solve_power lib e = Inr (Fl n)"
    and "0 < n" and "\<lceil>2 * n\<rceil> < 2 ^ 53"
    and "0 < dau" and "dau < 2 ^ 1075"
  shows "planning lib base_p mde_target dau =
           Planned \<lparr>es = e, req_n = \<lceil>2 * n\<rceil>,
                    est_days = \<lceil>real_of_int \<lceil>2 * n\<rceil> / real_of_int dau\<rceil>\<rparr>"
  using assms(1,2) plan_sizes_in_range [OF assms(3-6)]
  by (simp add: planning_def planning_try_def)

theorem planning_totals_witness:
  "planning lib_example (1 / 10) (5 / 100) 1000 =
     Planned \<lparr>es = Fl (16486 / 1000000), req_n = 115512, est_days = 116\<rparr>"
  using planning_totals
    [of lib_example "1 / 10" "5 / 100" "Fl (16486 / 1000000)" "5775578 / 100" 1000]
  by (simp add: lib_example_def)


section \<open>Properties of the frequentist test\<close>

lemma agg_count_positive: "agg rows g = Some (n, s) \<Longrightarrow> 0 < n"
  by (auto simp: agg_def Let_def split: if_splits)

lemma agg_None_iff: "agg rows g = None \<longleftrightarrow> filter (\<lambda>r. fst r = g) rows = []"
  by (simp add: agg_def Let_def)

lemma loc_None: "agg rows g = None \<Longrightarrow> loc rows g = Inl KeyError"
  by (simp add: loc_def)

lemma loc_Some: "agg rows g = Some cs \<Longrightarrow> loc rows g = Inr cs"
  by (simp add: loc_def)

lemma loc_cases: "loc rows g = Inl KeyError \<or> (\<exists>n s. loc rows g = Inr (n, s))"
  by (cases "agg rows g") (auto simp: loc_def)

lemma obs_lift_missing_group:
  assumes "agg rows ''A'' = None \<or> agg rows ''B'' = None"
  shows "obs_lift_ab_sim rows = Inl KeyError"
proof (cases "agg rows ''A''")
  case None
  then show ?thesis by (simp add: obs_lift_ab_sim_def loc_None)
next
  case (Some cs)
  with assms have "agg rows ''B'' = None" by simp
  with Some show ?thesis
    by (cases cs) (simp add: obs_lift_ab_sim_def loc_None loc_Some)
qed

lemma test_ab_sim_missing_group:
  assumes "agg rows ''A'' = None \<or> agg rows ''B'' = None"
  shows "test_ab_sim lib rows = Inl KeyError"
  by (simp add: test_ab_sim_def obs_lift_missing_group [OF assms])

lemma test_bayesian_missing_group:
  assumes "agg rows ''A'' = None \<or> agg rows ''B'' = None"
  shows "test_bayesian lib rows = Inl KeyError"
proof (cases "agg rows ''A''")
  case None
  then show ?thesis by (simp add: test_bayesian_def loc_None)
next
  case (Some cs)
  with assms have "agg rows ''B'' = None" by simp
  with Some show ?thesis
    by (cases cs) (simp add: test_bayesian_def loc_None loc_Some)
qed

lemma obs_lift_ab_sim_value:
  assumes "agg rows ''A'' = Some (a_n, a_s)" and "agg rows ''B'' = Some (b_n, b_s)"
  shows "obs_lift_ab_sim rows =
    Inr (if 0 < a_s
         then Fl ((real_of_int b_s / real_of_int b_n) / (real_of_int a_s / real_of_int a_n) - 1)
         else Fl 0)"
proof -
  have "0 < a_n" "0 < b_n" using assms agg_count_positive by blast+
  then show ?thesis using assms
    by (simp add: obs_lift_ab_sim_def loc_Some zero_less_divide_iff)
qed

lemma obs_lift_bayesian_value:
  assumes "0 < ca_n" and "0 < cb_n"
  shows "obs_lift_bayesian ca_n ca_s cb_n cb_s =
    (if ca_s \<noteq> 0
     then Fl ((real_of_int cb_s / real_of_int cb_n) / (real_of_int ca_s / real_of_int ca_n) - 1)
     else if 0 < cb_s then PInf else if cb_s < 0 then NInf else NaN)"
  using assms by (simp add: obs_lift_bayesian_def zero_less_divide_iff divide_less_0_iff)

text \<open>
  Claim C5 says that the test fails with an error for insufficient data, and returns no
  stand-in such as a lift of 0, when a group has no observations, and that with two
  positive counts the observed lift is \<open>rate_b / rate_a - 1\<close>. With one observation in
  each group, none of them a click in group A and one in group B, both counts are
  positive and the rate of A is 0: \<^verbatim>\<open>ab_sim.py\<close> returns the lift 0 of its guard, and
  \<^verbatim>\<open>bayesian.py\<close> divides by zero and returns an infinity.
\<close>

theorem obs_lift_zero_sentinel:
  "agg [(''A'', 0), (''B'', 1)] ''A'' = Some (1, 0)
   \<and> agg [(''A'', 0), (''B'', 1)] ''B'' = Some (1, 1)
   \<and> test_ab_sim lib_example [(''A'', 0), (''B'', 1)] =
       Inr \<lparr>z_statistic = Fl 2, p_value = Fl (4 / 100), observed_lift = Fl 0\<rparr>
   \<and> test_bayesian lib_example [(''A'', 0), (''B'', 1)] =
       Inr \<lparr>z_statistic = Fl 2, p_value = Fl (4 / 100), observed_lift = PInf\<rparr>"
  by (simp add: agg_def test_ab_sim_def test_bayesian_def obs_lift_ab_sim_def obs_lift_bayesian_def
      loc_def lib_example_def)

text \<open>
  Claim C5, amended. When a group has no observations, the lookup of its counts fails
  with a KeyError in both files, before any statistic is computed. When both groups have
  observations and the z-test returns, both counts are positive, the result holds the z
  statistic and the p-value, and the observed lift is \<open>rate_b / rate_a - 1\<close> when group A
  has a click; when group A has none, \<^verbatim>\<open>ab_sim.py\<close> returns the lift 0 of its guard.
\<close>

theorem frequentist_test_outcome:
  "(agg rows ''A'' = None \<or> agg rows ''B'' = None \<longrightarrow>
      test_ab_sim lib rows = Inl KeyError \<and> test_bayesian lib rows = Inl KeyError)
   \<and> (\<forall>a_n a_s b_n b_s z p.
        agg rows ''A'' = Some (a_n, a_s) \<longrightarrow> agg rows ''B'' = Some (b_n, b_s) \<longrightarrow>
        lib_ztest lib [b_s, a_s] [b_n, a_n] = Inr (z, p) \<longrightarrow>
          0 < a_n \<and> 0 < b_n
        \<and> test_ab_sim lib rows =
            Inr \<lparr>z_statistic = z, p_value = p,
                 observed_lift =
                   (if 0 < a_s
                    then Fl ((real_of_int b_s / real_of_int b_n) / (real_of_int a_s / real_of_int a_n) - 1)
                    else Fl 0)\<rparr>
        \<and> (\<exists>r. test_bayesian lib rows = Inr r \<and> z_statistic r = z \<and> p_value r = p
              \<and> (0 < a_s \<longrightarrow>
                    observed_lift r =
                      Fl ((real_of_int b_s / real_of_int b_n) / (real_of_int a_s / real_of_int a_n) - 1))))"
proof (intro conjI impI allI)
  assume "agg rows ''A'' = None \<or> agg rows ''B'' = None"
  then show "test_ab_sim lib rows = Inl KeyError" "test_bayesian lib rows = Inl KeyError"
    by (rule test_ab_sim_missing_group, rule test_bayesian_missing_group)
next
  fix a_n a_s b_n b_s z p
  assume a: "agg rows ''A'' = Some (a_n, a_s)" and b: "agg rows ''B'' = Some (b_n, b_s)"
    and zt: "lib_ztest lib [b_s, a_s] [b_n, a_n] = Inr (z, p)"
  show pos_a: "0 < a_n" using a by (rule agg_count_positive)
  show pos_b: "0 < b_n" using b by (rule agg_count_positive)
  show "test_ab_sim lib rows =
            Inr \<lparr>z_statistic = z, p_value = p,
                 observed_lift =
                   (if 0 < a_s
                    then Fl ((real_of_int b_s / real_of_int b_n) / (real_of_int a_s / real_of_int a_n) - 1)
                    else Fl 0)\<rparr>"
    using obs_lift_ab_sim_value [OF a b] zt by (simp add: test_ab_sim_def loc_Some [OF a] loc_Some [OF b])
  have "test_bayesian lib rows =
            Inr \<lparr>z_statistic = z, p_value = p,
                 observed_lift =
                   (if a_s \<noteq> 0
                    then Fl ((real_of_int b_s / real_of_int b_n) / (real_of_int a_s / real_of_int a_n) - 1)
                    else if 0 < b_s then PInf else if b_s < 0 then NInf else NaN)\<rparr>"
    using obs_lift_bayesian_value [OF pos_a pos_b] zt
    by (simp add: test_bayesian_def loc_Some [OF a] loc_Some [OF b])
  then show "\<exists>r. test_bayesian lib rows = Inr r \<and> z_statistic r = z \<and> p_value r = p
              \<and> (0 < a_s \<longrightarrow>
                    observed_lift r =
                      Fl ((real_of_int b_s / real_of_int b_n) / (real_of_int a_s / real_of_int a_n) - 1))"
    by simp
qed

lemma agg_ex1: "agg [(''A'', 1), (''B'', 1), (''A'', 0), (''B'', 1)] ''A'' = Some (2, 1)"
  "agg [(''A'', 1), (''B'', 1), (''A'', 0), (''B'', 1)] ''B'' = Some (2, 2)"
  by (simp_all add: agg_def)

theorem frequentist_test_outcome_witness:
  "test_ab_sim lib_example [(''A'', 1), (''B'', 1), (''A'', 0), (''B'', 1)] =
     Inr \<lparr>z_statistic = Fl 2, p_value = Fl (4 / 100), observed_lift = Fl 1\<rparr>
   \<and> (\<exists>r. test_bayesian lib_example [(''A'', 1), (''B'', 1), (''A'', 0), (''B'', 1)] = Inr r
          \<and> z_statistic r = Fl 2 \<and> p_value r = Fl (4 / 100) \<and> observed_lift r = Fl 1)
   \<and> test_ab_sim lib_example [(''A'', 1), (''A'', 0)] = Inl KeyError
   \<and> test_bayesian lib_example [(''A'', 1), (''A'', 0)] = Inl KeyError"
proof -
  have z: "lib_ztest lib_example [2, 1] [2, 2] = Inr (Fl 2, Fl (4 / 100))"
    by (simp add: lib_example_def)
  have none: "agg [(''A'', 1), (''A'', 0)] ''A'' = None \<or> agg [(''A'', 1), (''A'', 0)] ''B'' = None"
    by (simp add: agg_def)
  show ?thesis
    using frequentist_test_outcome [of "[(''A'', 1), (''B'', 1), (''A'', 0), (''B'', 1)]" lib_example]
      frequentist_test_outcome [of "[(''A'', 1), (''A'', 0)]" lib_example]
      agg_ex1 z none
    by simp
qed


section \<open>Properties of the Bayesian comparison\<close>

lemma length_draws: "length (fst (draws draw a b n g)) = n"
proof (induction n arbitrary: g)
  case 0
  show ?case by simp
next
  case (Suc n)
  obtain x g' where d: "draw g a b = (x, g')"
    by (cases "draw g a b")
  obtain xs g'' where ds: "draws draw a b n g' = (xs, g'')"
    by (cases "draws draw a b n g'")
  have "length xs = n"
    using Suc.IH [of g'] ds by simp
  then show ?case
    using d ds by simp
qed

lemma sum_list_indicator:
  "sum_list (map (\<lambda>x. if P x then 1 else 0) xs) = real (length (filter P xs))"
  by (induction xs) simp_all

lemma sum_list_max_nonneg: "0 \<le> sum_list (map (\<lambda>(a, b). max (a - b) 0) (xs :: (real \<times> real) list))"
  by (rule sum_list_nonneg) auto

lemma np_random_beta_valid:
  assumes "0 < a" and "0 < b"
  shows "np_random_beta draw a b n g = Inr (draws draw a b n g)"
  using assms by (simp add: np_random_beta_def)

text \<open>
  Claim C7. For counts with \<open>0 \<le> clicks \<le> n\<close> in both groups, the comparison draws
  20000 samples for group A from Beta(1 + clicks, 1 + n - clicks) and then 20000 for
  group B, and returns; the probability that B is better is the fraction of the pairs in
  which the draw of B exceeds the draw of A, the expected loss is the mean over the pairs
  of \<open>max (a - b) 0\<close>; so the probability lies between 0 and 1 and the loss is not
  negative.
\<close>

theorem run_bayesian_analysis_result:
  assumes "0 \<le> c_clicks" and "c_clicks \<le> c_n" and "0 \<le> t_clicks" and "t_clicks \<le> t_n"
  shows "\<exists>a_samples b_samples g1 g2 p l.
           draws draw (1 + c_clicks) (1 + c_n - c_clicks) 20000 g = (a_samples, g1)
         \<and> draws draw (1 + t_clicks) (1 + t_n - t_clicks) 20000 g1 = (b_samples, g2)
         \<and> length a_samples = 20000 \<and> length b_samples = 20000
         \<and> run_bayesian_analysis draw c_clicks c_n t_clicks t_n g = Inr ((Fl p, Fl l), g2)
         \<and> p = real (length (filter (\<lambda>(b, a). a < b) (zip b_samples a_samples))) / 20000
         \<and> l = sum_list (map (\<lambda>(a, b). max (a - b) 0) (zip a_samples b_samples)) / 20000
         \<and> 0 \<le> p \<and> p \<le> 1 \<and> 0 \<le> l"
proof -
  obtain a_samples g1 where da: "draws draw (1 + c_clicks) (1 + c_n - c_clicks) 20000 g = (a_samples, g1)"
    by (cases "draws draw (1 + c_clicks) (1 + c_n - c_clicks) 20000 g")
  obtain b_samples g2 where db: "draws draw (1 + t_clicks) (1 + t_n - t_clicks) 20000 g1 = (b_samples, g2)"
    by (cases "draws draw (1 + t_clicks) (1 + t_n - t_clicks) 20000 g1")
  have la: "length a_samples = 20000"
    using length_draws [of draw "1 + c_clicks" "1 + c_n - c_clicks" 20000 g] da by simp
  have lb: "length b_samples = 20000"
    using length_draws [of draw "1 + t_clicks" "1 + t_n - t_clicks" 20000 g1] db by simp
  define p where "p = real (length (filter (\<lambda>(b, a). a < b) (zip b_samples a_samples))) / 20000"
  define l where "l = sum_list (map (\<lambda>(a, b). max (a - b) 0) (zip a_samples b_samples)) / 20000"
  have ra: "np_random_beta draw (1 + c_clicks) (1 + c_n - c_clicks) 20000 g = Inr (a_samples, g1)"
    using assms(1,2) da by (simp add: np_random_beta_valid)
  have rb: "np_random_beta draw (1 + t_clicks) (1 + t_n - t_clicks) 20000 g1 = Inr (b_samples, g2)"
    using assms(3,4) db by (simp add: np_random_beta_valid)
  have nonempty: "zip b_samples a_samples \<noteq> []" "zip a_samples b_samples \<noteq> []"
    using la lb by auto
  have len: "length (zip b_samples a_samples) = 20000" "length (zip a_samples b_samples) = 20000"
    using la lb by simp_all
  have ind: "(\<lambda>(b, a). if a < b then 1 else 0) = (\<lambda>x. if (\<lambda>(b :: real, a :: real). a < b) x then (1 :: real) else 0)"
    by auto
  have prob: "np_mean (map (\<lambda>(b, a). if a < b then 1 else 0) (zip b_samples a_samples)) = Fl p"
    unfolding ind sum_list_indicator np_mean_def p_def using nonempty len
    by (simp add: sum_list_indicator)
  have loss: "np_mean (map (\<lambda>(a, b). max (a - b) 0) (zip a_samples b_samples)) = Fl l"
    unfolding np_mean_def l_def using nonempty len by simp
  have run: "run_bayesian_analysis draw c_clicks c_n t_clicks t_n g = Inr ((Fl p, Fl l), g2)"
    by (simp add: run_bayesian_analysis_def ra rb prob loss)
  have "length (filter (\<lambda>(b, a). a < b) (zip b_samples a_samples)) \<le> 20000"
    using length_filter_le [of "\<lambda>(b, a). a < b" "zip b_samples a_samples"] la lb by simp
  then have pr: "0 \<le> p" "p \<le> 1" by (simp_all add: p_def)
  have lr: "0 \<le> l" unfolding l_def using sum_list_max_nonneg [of "zip a_samples b_samples"] by simp
  show ?thesis using da db la lb run p_def l_def pr lr by blast
qed

theorem run_bayesian_analysis_result_witness:
  "\<exists>p l g2. run_bayesian_analysis draw_cycle 100 1000 150 1000 (0 :: nat) = Inr ((Fl p, Fl l), g2)
      \<and> 0 \<le> p \<and> p \<le> 1 \<and> 0 \<le> l"
  using run_bayesian_analysis_result [of 100 1000 150 1000 draw_cycle 0]
  by auto

end
